theory Spec2Isabelle
  imports Main
begin

section \<open>Python values and the error taxonomy of \<open>db_utils.py\<close>\<close>

text \<open>
  The values that travel through the CRUD helpers: filter values, primary keys, payload
  fields, and references to the two kinds of object the helpers are handed, mapped
  instances (\<open>PObj\<close>, a reference into the object store) and sessions (\<open>PSession\<close>, a
  handle). A \<open>dict\<close> with string keys is an association list in insertion order.
\<close>

datatype pyval =
    PNone
  | PBool bool
  | PInt int
  | PStr string
  | PList "pyval list"
  | PTuple "pyval list"
  | PSet "pyval list"
  | PObj nat
  | PSession nat

type_synonym pydict = "(string \<times> pyval) list"

text \<open>Python truthiness (\<open>if x:\<close>, \<open>not x\<close>); instances and sessions define neither
  \<open>__bool__\<close> nor \<open>__len__\<close>, so they are true.\<close>

fun truthy :: "pyval \<Rightarrow> bool" where
  "truthy PNone = False"
| "truthy (PBool b) = b"
| "truthy (PInt i) = (i \<noteq> 0)"
| "truthy (PStr s) = (s \<noteq> [])"
| "truthy (PList xs) = (xs \<noteq> [])"
| "truthy (PTuple xs) = (xs \<noteq> [])"
| "truthy (PSet xs) = (xs \<noteq> [])"
| "truthy (PObj r) = True"
| "truthy (PSession h) = True"

text \<open>
  The exceptions (subclasses of Python's \<open>Exception\<close>). \<open>DatabaseError(message,
  status_code=500)\<close> is the base of the taxonomy; \<open>NotFoundError(message)\<close> and
  \<open>ValidationError(message)\<close> are its subclasses and fix the status code. \<open>PyError cls
  msg\<close> is any exception outside the taxonomy, by class name and \<open>str(e)\<close>.
\<close>

datatype exn =
    DatabaseError string nat
  | NotFoundError string
  | ValidationError string
  | PyError string string

fun message :: "exn \<Rightarrow> string" where
  "message (DatabaseError m c) = m"
| "message (NotFoundError m) = m"
| "message (ValidationError m) = m"
| "message (PyError cls m) = m"

fun status_code :: "exn \<Rightarrow> nat option" where
  "status_code (DatabaseError m c) = Some c"
| "status_code (NotFoundError m) = Some 404"
| "status_code (ValidationError m) = Some 400"
| "status_code (PyError cls m) = None"

text \<open>\<open>isinstance(e, DatabaseError)\<close>: the base class and its two subclasses.\<close>

fun is_DatabaseError :: "exn \<Rightarrow> bool" where
  "is_DatabaseError (DatabaseError m c) = True"
| "is_DatabaseError (NotFoundError m) = True"
| "is_DatabaseError (ValidationError m) = True"
| "is_DatabaseError (PyError cls m) = False"

text \<open>\<open>str(e)\<close>: the taxonomy passes its message to \<open>Exception.__init__\<close>.\<close>

definition str_exn :: "exn \<Rightarrow> string" where
  "str_exn e = message e"

section \<open>Computations: a world threaded through, an exception or a value returned\<close>

type_synonym ('a, 'w) comp = "'w \<Rightarrow> (exn + 'a) \<times> 'w"

definition ret :: "'a \<Rightarrow> ('a, 'w) comp" where
  "ret x w = (Inr x, w)"

definition raise :: "exn \<Rightarrow> ('a, 'w) comp" where
  "raise e w = (Inl e, w)"

definition bind :: "('a, 'w) comp \<Rightarrow> ('a \<Rightarrow> ('b, 'w) comp) \<Rightarrow> ('b, 'w) comp" where
  "bind m f w = (case m w of (Inl e, w') \<Rightarrow> (Inl e, w') | (Inr x, w') \<Rightarrow> f x w')"

section \<open>The decorator \<open>db_error\<close>\<close>

text \<open>
  \<open>wrapper(*args, **kwargs)\<close> calls \<open>func(*args, **kwargs)\<close>; \<open>except DatabaseError: raise\<close>
  lets a taxonomy error through, \<open>except Exception as e: raise DatabaseError(str(e))\<close>
  replaces any other. The wrapped call is the computation \<open>func\<close> already applied to its
  arguments.
\<close>

definition db_error :: "('a, 'w) comp \<Rightarrow> ('a, 'w) comp" where
  "db_error func w =
     (case func w of
        (Inr result, w') \<Rightarrow> (Inr result, w')
      | (Inl e, w') \<Rightarrow>
          if is_DatabaseError e then (Inl e, w')
          else (Inl (DatabaseError (str_exn e) 500), w'))"

section \<open>Mapped entity types and the filter-clause builder\<close>

text \<open>
  The helpers reflect on a mapped class only through \<open>__name__\<close>, \<open>hasattr\<close> and
  \<open>getattr\<close>. An entity is its declared name and the names of its column attributes, in
  declaration order; \<open>pkey\<close> names the primary-key column, which only the mapping
  library reads.
\<close>

record entity =
  ename :: string
  attrs :: "string list"
  pkey :: string

definition hasattr :: "entity \<Rightarrow> string \<Rightarrow> bool" where
  "hasattr model field = (field \<in> set (attrs model))"

text \<open>A clause object: the column, the comparison built on it, the value.\<close>

datatype cmp_op = OpEq | OpNe | OpLt | OpLte | OpGt | OpGte | OpIn | OpContains | OpLike

datatype clause = Clause string cmp_op pyval

text \<open>\<open>f"...'{field}'..."\<close>: the text between single quotes.\<close>

definition sq :: "string \<Rightarrow> string" where
  "sq s = CHR 0x27 # s @ [CHR 0x27]"

text \<open>
  \<open>raw_key.split("__", 1)\<close> when \<open>"__" in raw_key\<close>: the text before the leftmost \<open>__\<close>
  and the text after it; \<open>None\<close> when the key holds no \<open>__\<close>.
\<close>

fun split_dunder :: "string \<Rightarrow> (string \<times> string) option" where
  "split_dunder (c # d # cs) =
     (if c = CHR ''_'' \<and> d = CHR ''_'' then Some ([], cs)
      else (case split_dunder (d # cs) of
              None \<Rightarrow> None
            | Some (field, op) \<Rightarrow> Some (c # field, op)))"
| "split_dunder cs = None"

definition parse_key :: "string \<Rightarrow> string \<times> string" where
  "parse_key raw_key =
     (case split_dunder raw_key of
        Some (field, op) \<Rightarrow> (field, op)
      | None \<Rightarrow> (raw_key, ''eq''))"

text \<open>\<open>isinstance(value, (list, tuple, set))\<close>\<close>

fun is_list_tuple_set :: "pyval \<Rightarrow> bool" where
  "is_list_tuple_set (PList xs) = True"
| "is_list_tuple_set (PTuple xs) = True"
| "is_list_tuple_set (PSet xs) = True"
| "is_list_tuple_set v = False"

text \<open>
  \<open>_build_clauses(model, filters)\<close>: the loop over \<open>filters.items()\<close>, with the list
  \<open>clauses\<close> it appends to. A \<open>raise\<close> ends the loop.
\<close>

fun build_clauses_loop :: "entity \<Rightarrow> pydict \<Rightarrow> clause list \<Rightarrow> exn + clause list" where
  "build_clauses_loop model [] clauses = Inr clauses"
| "build_clauses_loop model ((raw_key, val) # rest) clauses =
     (case parse_key raw_key of (field, op) \<Rightarrow>
        if \<not> hasattr model field then
          Inl (ValidationError (''Field '' @ sq field @ '' not found on '' @ ename model))
        else if op = ''eq'' then
          build_clauses_loop model rest (clauses @ [Clause field OpEq val])
        else if op = ''ne'' then
          build_clauses_loop model rest (clauses @ [Clause field OpNe val])
        else if op = ''lt'' then
          build_clauses_loop model rest (clauses @ [Clause field OpLt val])
        else if op = ''lte'' then
          build_clauses_loop model rest (clauses @ [Clause field OpLte val])
        else if op = ''gt'' then
          build_clauses_loop model rest (clauses @ [Clause field OpGt val])
        else if op = ''gte'' then
          build_clauses_loop model rest (clauses @ [Clause field OpGte val])
        else if op = ''in'' then
          (if \<not> is_list_tuple_set val then
             Inl (ValidationError
               (''Value for '' @ sq raw_key @ '' must be a list/tuple for __in''))
           else build_clauses_loop model rest (clauses @ [Clause field OpIn val]))
        else if op = ''contains'' then
          build_clauses_loop model rest (clauses @ [Clause field OpContains val])
        else if op = ''like'' then
          build_clauses_loop model rest (clauses @ [Clause field OpLike val])
        else Inl (ValidationError (''Unsupported filter operation: '' @ op)))"

definition build_clauses :: "entity \<Rightarrow> pydict \<Rightarrow> exn + clause list" where
  "build_clauses model filters = build_clauses_loop model filters []"

section \<open>Statements and the ordering builder\<close>

text \<open>
  A sort term is \<open>getattr(obj, fname)\<close> (ascending) or \<open>getattr(obj, fname).desc()\<close>. A
  statement is \<open>select(obj)\<close> with the clauses and sort terms given to it so far;
  \<open>stmt.where(*clauses)\<close> and \<open>query.order_by(*order_cols)\<close> add to them.
\<close>

datatype sort_term = Asc string | Desc string

record query =
  q_entity :: entity
  q_where :: "clause list"
  q_order :: "sort_term list"

definition select :: "entity \<Rightarrow> query" where
  "select obj = \<lparr>q_entity = obj, q_where = [], q_order = []\<rparr>"

definition stmt_where :: "query \<Rightarrow> clause list \<Rightarrow> query" where
  "stmt_where stmt clauses = stmt\<lparr>q_where := q_where stmt @ clauses\<rparr>"

definition stmt_order_by :: "query \<Rightarrow> sort_term list \<Rightarrow> query" where
  "stmt_order_by stmt order_cols = stmt\<lparr>q_order := q_order stmt @ order_cols\<rparr>"

text \<open>\<open>s.startswith(p)\<close>\<close>

definition startswith :: "string \<Rightarrow> string \<Rightarrow> bool" where
  "startswith s p = (take (length p) s = p)"

text \<open>The loop of \<open>_order_by\<close> over the names (\<open>o\<close> in the source), with the list
  \<open>order_cols\<close>; \<open>o[1:]\<close> is \<open>drop 1\<close>.\<close>

fun order_cols_loop :: "string list \<Rightarrow> entity \<Rightarrow> sort_term list \<Rightarrow> exn + sort_term list" where
  "order_cols_loop [] obj order_cols = Inr order_cols"
| "order_cols_loop (name # rest) obj order_cols =
     (if startswith name ''-'' then
        (let fname = drop 1 name in
         if \<not> hasattr obj fname then
           Inl (ValidationError (''Order field '' @ sq fname @ '' not found''))
         else order_cols_loop rest obj (order_cols @ [Desc fname]))
      else
        (let fname = name in
         if \<not> hasattr obj fname then
           Inl (ValidationError (''Order field '' @ sq fname @ '' not found''))
         else order_cols_loop rest obj (order_cols @ [Asc fname])))"

definition order_by_query :: "string list \<Rightarrow> entity \<Rightarrow> query \<Rightarrow> exn + query" where
  "order_by_query order_by obj stmt =
     (case order_cols_loop order_by obj [] of
        Inl e \<Rightarrow> Inl e
      | Inr order_cols \<Rightarrow> Inr (stmt_order_by stmt order_cols))"

section \<open>The mapping library, as the helpers call it\<close>

text \<open>
  The session and the mapped instances belong to the mapping library (SQLModel on
  SQLAlchemy): the helpers only call them. Each call the source makes is a field of this
  record, a computation on a world \<open>'w\<close> that may raise; the helpers are defined for every
  such record. \<open>s_exec_one_or_none\<close> and \<open>s_exec_all\<close> are \<open>session.exec(stmt)\<close>
  followed by \<open>.one_or_none()\<close> and \<open>.all()\<close>; \<open>construct\<close> is the class call
  \<open>obj(**vals)\<close>.
\<close>

record 'w orm =
  s_get :: "nat \<Rightarrow> entity \<Rightarrow> pyval \<Rightarrow> (pyval, 'w) comp"
  s_add :: "nat \<Rightarrow> pyval \<Rightarrow> (unit, 'w) comp"
  s_add_all :: "nat \<Rightarrow> pyval list \<Rightarrow> (unit, 'w) comp"
  s_flush :: "nat \<Rightarrow> (unit, 'w) comp"
  s_refresh :: "nat \<Rightarrow> pyval \<Rightarrow> (unit, 'w) comp"
  s_delete :: "nat \<Rightarrow> pyval \<Rightarrow> (unit, 'w) comp"
  s_exec_one_or_none :: "nat \<Rightarrow> query \<Rightarrow> (pyval, 'w) comp"
  s_exec_all :: "nat \<Rightarrow> query \<Rightarrow> (pyval, 'w) comp"
  s_commit :: "nat \<Rightarrow> (unit, 'w) comp"
  s_rollback :: "nat \<Rightarrow> (unit, 'w) comp"
  model_dump :: "pyval \<Rightarrow> (pydict, 'w) comp"
  setattr :: "pyval \<Rightarrow> string \<Rightarrow> pyval \<Rightarrow> (unit, 'w) comp"
  construct :: "entity \<Rightarrow> pydict \<Rightarrow> (pyval, 'w) comp"

section \<open>The decorator \<open>db_commit\<close>\<close>












section \<open>The CRUD operations\<close>

text \<open>\<open>get\<close>: \<open>filters\<close> and \<open>order_by\<close> are optional; \<open>if filters:\<close> and \<open>if order_by:\<close>
  skip \<open>None\<close> and the empty collection alike. The form of \<open>get\<close> that selects a list of
  columns (\<open>obj\<close> a list) is left out: no other helper calls it.\<close>

definition lift :: "exn + 'a \<Rightarrow> ('a, 'w) comp" where
  "lift r = (case r of Inl e \<Rightarrow> raise e | Inr x \<Rightarrow> ret x)"

definition get ::
  "'w orm \<Rightarrow> nat \<Rightarrow> entity \<Rightarrow> pydict option \<Rightarrow> string list option \<Rightarrow> bool \<Rightarrow> (pyval, 'w) comp" where
  "get orm session obj filters order_by one_or_none =
     db_error
       (bind (case filters of
                None \<Rightarrow> ret (select obj)
              | Some fs \<Rightarrow>
                  if fs = [] then ret (select obj)
                  else bind (lift (build_clauses obj fs))
                         (\<lambda>clauses. ret (if clauses \<noteq> [] then stmt_where (select obj) clauses
                                         else select obj)))
          (\<lambda>stmt.
       bind (case order_by of
                None \<Rightarrow> ret stmt
              | Some ob \<Rightarrow> if ob = [] then ret stmt else lift (order_by_query ob obj stmt))
          (\<lambda>stmt.
       if one_or_none then s_exec_one_or_none orm session stmt
       else s_exec_all orm session stmt)))"

definition get_by_id :: "'w orm \<Rightarrow> nat \<Rightarrow> entity \<Rightarrow> pyval \<Rightarrow> (pyval, 'w) comp" where
  "get_by_id orm session obj ident = db_error (s_get orm session obj ident)"

text \<open>\<open>save\<close>: \<open>if not isinstance(new_obj, list): new_obj = [new_obj]\<close>, then the loop
  \<open>for obj in new_obj: session.flush(); session.refresh(obj)\<close>, then
  \<open>new_obj if len(new_obj) > 1 else new_obj[0]\<close>, where indexing an empty list raises.\<close>

fun as_list :: "pyval \<Rightarrow> pyval list" where
  "as_list (PList xs) = xs"
| "as_list v = [v]"

fun flush_refresh_loop :: "'w orm \<Rightarrow> nat \<Rightarrow> pyval list \<Rightarrow> (unit, 'w) comp" where
  "flush_refresh_loop orm session [] = ret ()"
| "flush_refresh_loop orm session (obj # rest) =
     bind (s_flush orm session) (\<lambda>_.
     bind (s_refresh orm session obj) (\<lambda>_.
     flush_refresh_loop orm session rest))"

definition index0 :: "pyval list \<Rightarrow> (pyval, 'w) comp" where
  "index0 xs =
     (case xs of
        [] \<Rightarrow> raise (PyError ''IndexError'' ''list index out of range'')
      | x # _ \<Rightarrow> ret x)"

definition save :: "'w orm \<Rightarrow> nat \<Rightarrow> pyval \<Rightarrow> (pyval, 'w) comp" where
  "save orm session new_obj =
     db_error
       (let new_obj = as_list new_obj in
        bind (s_add_all orm session new_obj) (\<lambda>_.
        bind (flush_refresh_loop orm session new_obj) (\<lambda>_.
        if length new_obj > 1 then ret (PList new_obj) else index0 new_obj)))"

definition delete :: "'w orm \<Rightarrow> nat \<Rightarrow> entity \<Rightarrow> pyval \<Rightarrow> (pyval, 'w) comp" where
  "delete orm session obj ident =
     db_error
       (bind (s_get orm session obj ident) (\<lambda>db_obj.
        if \<not> truthy db_obj then raise (NotFoundError (ename obj @ '' not found''))
        else bind (s_delete orm session db_obj) (\<lambda>_. ret (PBool True))))"

text \<open>
  \<open>update\<close>. \<open>vals\<close> is the payload by what \<open>vals.model_dump(exclude_unset=True)\<close> gives:
  the fields that were explicitly set, in order. \<open>dict.update\<close> keeps the place of a key
  that is there and appends a new one; \<open>del d["id"]\<close> stands under \<open>if "id" in d\<close>.
\<close>

fun dict_set :: "pydict \<Rightarrow> string \<Rightarrow> pyval \<Rightarrow> pydict" where
  "dict_set [] k v = [(k, v)]"
| "dict_set ((k', v') # d) k v = (if k' = k then (k, v) # d else (k', v') # dict_set d k v)"

fun dict_update :: "pydict \<Rightarrow> pydict \<Rightarrow> pydict" where
  "dict_update d [] = d"
| "dict_update d ((k, v) # rest) = dict_update (dict_set d k v) rest"

definition dict_del :: "pydict \<Rightarrow> string \<Rightarrow> pydict" where
  "dict_del d k = filter (\<lambda>(k', v). k' \<noteq> k) d"

text \<open>The loop \<open>for key, value in db_result_dict.items(): setattr(db_result, key, value)\<close>.\<close>

fun setattr_loop :: "'w orm \<Rightarrow> pyval \<Rightarrow> pydict \<Rightarrow> (unit, 'w) comp" where
  "setattr_loop orm db_result [] = ret ()"
| "setattr_loop orm db_result ((key, val) # rest) =
     bind (setattr orm db_result key val) (\<lambda>_. setattr_loop orm db_result rest)"

definition merged_dict :: "pydict \<Rightarrow> pydict \<Rightarrow> pydict" where
  "merged_dict db_result_dict vals =
     (let d = dict_update db_result_dict vals in
      if ''id'' \<in> set (map fst d) then dict_del d ''id'' else d)"

definition update :: "'w orm \<Rightarrow> nat \<Rightarrow> entity \<Rightarrow> pyval \<Rightarrow> pydict \<Rightarrow> (pyval, 'w) comp" where
  "update orm session obj ident vals =
     db_error
       (bind (s_get orm session obj ident) (\<lambda>db_result.
        if \<not> truthy db_result then raise (NotFoundError (ename obj @ '' not found''))
        else
          bind (model_dump orm db_result) (\<lambda>db_result_dict.
          bind (setattr_loop orm db_result (merged_dict db_result_dict vals)) (\<lambda>_.
          bind (s_add orm session db_result) (\<lambda>_.
          bind (s_refresh orm session db_result) (\<lambda>_.
          ret db_result))))))"

text \<open>
  \<open>get_or_create\<close> and \<open>get_or_convert\<close> open with the same guard and the same lookup.
  The guard is the loop \<open>for field, val in filters.items(): if val in [None, ""]: return
  None\<close>; \<open>val in [None, ""]\<close> holds of \<open>None\<close> and of the empty string only.
\<close>

fun blank_value :: "pydict \<Rightarrow> bool" where
  "blank_value [] = False"
| "blank_value ((field, val) # rest) = (if val = PNone \<or> val = PStr [] then True else blank_value rest)"

text \<open>\<open>if 'id' in filters: get_by_id(session, obj, filters['id']) else: get(session, obj,
  filters=filters, one_or_none=True)\<close>\<close>

definition lookup :: "'w orm \<Rightarrow> nat \<Rightarrow> entity \<Rightarrow> pydict \<Rightarrow> (pyval, 'w) comp" where
  "lookup orm session obj filters =
     (case map_of filters ''id'' of
        Some ident \<Rightarrow> get_by_id orm session obj ident
      | None \<Rightarrow> get orm session obj (Some filters) None True)"

definition get_or_create :: "'w orm \<Rightarrow> nat \<Rightarrow> entity \<Rightarrow> pydict \<Rightarrow> pydict \<Rightarrow> (pyval, 'w) comp" where
  "get_or_create orm session obj vals filters =
     (if blank_value filters then ret PNone
      else
        bind (lookup orm session obj filters) (\<lambda>db_result.
        if \<not> truthy db_result then
          bind (construct orm obj vals) (\<lambda>new_obj. save orm session new_obj)
        else ret db_result))"


section \<open>A reference session\<close>

text \<open>
  An executable model of the library's unit of work, small enough to run the helpers on:
  one session over one store. An instance is transient until it is added, pending until
  a flush inserts it, then persistent with the row last written or loaded for it;
  \<open>Marked\<close> is a persistent instance given to \<open>session.delete\<close> and not yet flushed,
  \<open>Removed\<close> one whose row a flush deleted. Rows of the store are the rows of the
  persistent instances. What the model follows of SQLAlchemy:
  \<^item> \<open>flush\<close> inserts the pending instances (a primary key that is \<open>None\<close> is
    generated), writes the attributes of the persistent ones, deletes the marked ones;
  \<^item> \<open>refresh\<close> expires the instance and loads it again from its row: as the library
    documents for \<open>expire\<close> and \<open>refresh\<close>, changes to it that were not flushed are
    discarded; an instance that is not persistent is refused, and one marked for
    deletion is gone after the autoflush and cannot be loaded;
  \<^item> \<open>get\<close> answers from the identity map and otherwise from the store, after an
    autoflush; \<open>exec\<close> autoflushes and selects from the store; \<open>add\<close> makes a transient
    instance pending and leaves others alone; the class call builds a transient
    instance from the keyword values.
  Constraint violations, the order of results and more than one session are left out.
\<close>

datatype ostate = Transient | Pending | Persistent pydict | Marked pydict | Removed

record inst =
  i_entity :: entity
  i_fields :: pydict
  i_state :: ostate

record sa_world =
  objs :: "inst list"
  next_pk :: int
  committed :: "inst list"

fun flush_objs :: "int \<Rightarrow> inst list \<Rightarrow> inst list \<times> int" where
  "flush_objs n [] = ([], n)"
| "flush_objs n (x # xs) =
     (case i_state x of
        Pending \<Rightarrow>
          (if map_of (i_fields x) (pkey (i_entity x)) = Some PNone then
             (let fields = dict_set (i_fields x) (pkey (i_entity x)) (PInt n);
                  (ys, m) = flush_objs (n + 1) xs
              in (x\<lparr>i_fields := fields, i_state := Persistent fields\<rparr> # ys, m))
           else
             (let (ys, m) = flush_objs n xs
              in (x\<lparr>i_state := Persistent (i_fields x)\<rparr> # ys, m)))
      | Persistent row \<Rightarrow>
          (let (ys, m) = flush_objs n xs in (x\<lparr>i_state := Persistent (i_fields x)\<rparr> # ys, m))
      | Marked row \<Rightarrow>
          (let (ys, m) = flush_objs n xs in (x\<lparr>i_state := Removed\<rparr> # ys, m))
      | Transient \<Rightarrow> (let (ys, m) = flush_objs n xs in (x # ys, m))
      | Removed \<Rightarrow> (let (ys, m) = flush_objs n xs in (x # ys, m)))"

definition flush :: "sa_world \<Rightarrow> sa_world" where
  "flush w =
     (case flush_objs (next_pk w) (objs w) of
        (ys, m) \<Rightarrow> w\<lparr>objs := ys, next_pk := m\<rparr>)"

text \<open>The references, from \<open>i\<close> on, of the instances that satisfy \<open>P\<close>.\<close>

fun matching_from :: "nat \<Rightarrow> (inst \<Rightarrow> bool) \<Rightarrow> inst list \<Rightarrow> nat list" where
  "matching_from i P [] = []"
| "matching_from i P (x # xs) = (if P x then i # matching_from (Suc i) P xs
                                  else matching_from (Suc i) P xs)"

text \<open>The identity map holds the persistent instances, the marked ones among them, by
  class and primary key of their row.\<close>

definition has_identity :: "entity \<Rightarrow> pyval \<Rightarrow> inst \<Rightarrow> bool" where
  "has_identity obj ident x =
     (ename (i_entity x) = ename obj \<and>
      (case i_state x of
         Persistent row \<Rightarrow> map_of row (pkey obj) = Some ident
       | Marked row \<Rightarrow> map_of row (pkey obj) = Some ident
       | _ \<Rightarrow> False))"

definition sa_get :: "nat \<Rightarrow> entity \<Rightarrow> pyval \<Rightarrow> (pyval, sa_world) comp" where
  "sa_get h obj ident w =
     (case matching_from 0 (has_identity obj ident) (objs w) of
        r # _ \<Rightarrow> (Inr (PObj r), w)
      | [] \<Rightarrow>
          (case matching_from 0 (has_identity obj ident) (objs (flush w)) of
             r # _ \<Rightarrow> (Inr (PObj r), flush w)
           | [] \<Rightarrow> (Inr PNone, flush w)))"

text \<open>What a clause says of a row. Comparisons by \<open><\<close> are those of integers; \<open>like\<close>
  reads \<open>%\<close> as any text and \<open>_\<close> as any one character.\<close>

fun contains_str :: "string \<Rightarrow> string \<Rightarrow> bool" where
  "contains_str [] sub = (sub = [])"
| "contains_str (c # s) sub = (startswith (c # s) sub \<or> contains_str s sub)"

fun like_match :: "string \<Rightarrow> string \<Rightarrow> bool" where
  "like_match [] s = (s = [])"
| "like_match (p # ps) [] = (p = CHR ''%'' \<and> like_match ps [])"
| "like_match (p # ps) (c # cs) =
     (if p = CHR ''%'' then like_match ps (c # cs) \<or> like_match (p # ps) cs
      else (p = CHR ''_'' \<or> p = c) \<and> like_match ps cs)"

fun holds :: "pydict \<Rightarrow> clause \<Rightarrow> bool" where
  "holds row (Clause col OpEq v) = (map_of row col = Some v)"
| "holds row (Clause col OpNe v) =
     (case map_of row col of Some x \<Rightarrow> x \<noteq> v | None \<Rightarrow> False)"
| "holds row (Clause col OpLt v) =
     (case (map_of row col, v) of (Some (PInt a), PInt b) \<Rightarrow> a < b | _ \<Rightarrow> False)"
| "holds row (Clause col OpLte v) =
     (case (map_of row col, v) of (Some (PInt a), PInt b) \<Rightarrow> a \<le> b | _ \<Rightarrow> False)"
| "holds row (Clause col OpGt v) =
     (case (map_of row col, v) of (Some (PInt a), PInt b) \<Rightarrow> a > b | _ \<Rightarrow> False)"
| "holds row (Clause col OpGte v) =
     (case (map_of row col, v) of (Some (PInt a), PInt b) \<Rightarrow> a \<ge> b | _ \<Rightarrow> False)"
| "holds row (Clause col OpIn v) =
     (case map_of row col of Some x \<Rightarrow> List.member (as_list v) x | None \<Rightarrow> False)"
| "holds row (Clause col OpContains v) =
     (case (map_of row col, v) of (Some (PStr s), PStr sub) \<Rightarrow> contains_str s sub | _ \<Rightarrow> False)"
| "holds row (Clause col OpLike v) =
     (case (map_of row col, v) of (Some (PStr s), PStr pat) \<Rightarrow> like_match pat s | _ \<Rightarrow> False)"

definition selected :: "query \<Rightarrow> inst \<Rightarrow> bool" where
  "selected q x =
     (ename (i_entity x) = ename (q_entity q) \<and>
      (case i_state x of
         Persistent row \<Rightarrow> list_all (holds row) (q_where q)
       | _ \<Rightarrow> False))"

definition sa_exec_one_or_none :: "nat \<Rightarrow> query \<Rightarrow> (pyval, sa_world) comp" where
  "sa_exec_one_or_none h q w =
     (case matching_from 0 (selected q) (objs (flush w)) of
        [] \<Rightarrow> (Inr PNone, flush w)
      | [r] \<Rightarrow> (Inr (PObj r), flush w)
      | _ \<Rightarrow> (Inl (PyError ''MultipleResultsFound''
                 ''Multiple rows were found when one or none was required''), flush w))"

definition sa_exec_all :: "nat \<Rightarrow> query \<Rightarrow> (pyval, sa_world) comp" where
  "sa_exec_all h q w = (Inr (PList (map PObj (matching_from 0 (selected q) (objs (flush w))))), flush w)"

definition set_obj :: "nat \<Rightarrow> inst \<Rightarrow> sa_world \<Rightarrow> sa_world" where
  "set_obj r x w = w\<lparr>objs := (objs w)[r := x]\<rparr>"

definition unmapped :: exn where
  "unmapped = PyError ''UnmappedInstanceError'' ''Class is not mapped''"

definition sa_add :: "nat \<Rightarrow> pyval \<Rightarrow> (unit, sa_world) comp" where
  "sa_add h v w =
     (case v of
        PObj r \<Rightarrow>
          if r < length (objs w) then
            (case i_state (objs w ! r) of
               Transient \<Rightarrow> (Inr (), set_obj r ((objs w ! r)\<lparr>i_state := Pending\<rparr>) w)
             | _ \<Rightarrow> (Inr (), w))
          else (Inl unmapped, w)
      | _ \<Rightarrow> (Inl unmapped, w))"

fun sa_add_all :: "nat \<Rightarrow> pyval list \<Rightarrow> (unit, sa_world) comp" where
  "sa_add_all h [] = ret ()"
| "sa_add_all h (v # vs) = bind (sa_add h v) (\<lambda>_. sa_add_all h vs)"

definition not_persistent :: exn where
  "not_persistent = PyError ''InvalidRequestError'' ''Instance is not persistent within this Session''"

definition sa_refresh :: "nat \<Rightarrow> pyval \<Rightarrow> (unit, sa_world) comp" where
  "sa_refresh h v w =
     (case v of
        PObj r \<Rightarrow>
          if r < length (objs w) then
            (case i_state (objs w ! r) of
               Persistent row \<Rightarrow> (Inr (), flush (set_obj r ((objs w ! r)\<lparr>i_fields := row\<rparr>) w))
             | Marked row \<Rightarrow>
                 (Inl (PyError ''InvalidRequestError'' ''Could not refresh instance''),
                  flush (set_obj r ((objs w ! r)\<lparr>i_fields := row\<rparr>) w))
             | _ \<Rightarrow> (Inl not_persistent, w))
          else (Inl unmapped, w)
      | _ \<Rightarrow> (Inl unmapped, w))"

definition sa_delete :: "nat \<Rightarrow> pyval \<Rightarrow> (unit, sa_world) comp" where
  "sa_delete h v w =
     (case v of
        PObj r \<Rightarrow>
          if r < length (objs w) then
            (case i_state (objs w ! r) of
               Persistent row \<Rightarrow> (Inr (), set_obj r ((objs w ! r)\<lparr>i_state := Marked row\<rparr>) w)
             | Marked row \<Rightarrow> (Inr (), w)
             | _ \<Rightarrow> (Inl (PyError ''InvalidRequestError'' ''Instance is not persisted''), w))
          else (Inl unmapped, w)
      | _ \<Rightarrow> (Inl unmapped, w))"

definition sa_commit :: "nat \<Rightarrow> (unit, sa_world) comp" where
  "sa_commit h w = (Inr (), (flush w)\<lparr>committed := objs (flush w)\<rparr>)"

text \<open>A rollback brings the store back to the last commit; instances created since are
  transient again.\<close>

definition sa_rollback :: "nat \<Rightarrow> (unit, sa_world) comp" where
  "sa_rollback h w =
     (Inr (), w\<lparr>objs := committed w @
                 map (\<lambda>x. x\<lparr>i_state := Transient\<rparr>) (drop (length (committed w)) (objs w))\<rparr>)"

definition no_attribute :: exn where
  "no_attribute = PyError ''AttributeError'' ''object has no such attribute''"

definition sa_model_dump :: "pyval \<Rightarrow> (pydict, sa_world) comp" where
  "sa_model_dump v w =
     (case v of
        PObj r \<Rightarrow> if r < length (objs w) then (Inr (i_fields (objs w ! r)), w)
                  else (Inl no_attribute, w)
      | _ \<Rightarrow> (Inl no_attribute, w))"

text \<open>Assigning to a name that is not a field of the instance is refused.\<close>

definition sa_setattr :: "pyval \<Rightarrow> string \<Rightarrow> pyval \<Rightarrow> (unit, sa_world) comp" where
  "sa_setattr v key val w =
     (case v of
        PObj r \<Rightarrow>
          if r < length (objs w) \<and> key \<in> set (map fst (i_fields (objs w ! r))) then
            (Inr (), set_obj r ((objs w ! r)\<lparr>i_fields := dict_set (i_fields (objs w ! r)) key val\<rparr>) w)
          else (Inl (PyError ''ValueError'' ''object has no field''), w)
      | _ \<Rightarrow> (Inl no_attribute, w))"

definition new_instance :: "entity \<Rightarrow> pydict \<Rightarrow> inst" where
  "new_instance obj vals =
     \<lparr>i_entity = obj,
      i_fields = map (\<lambda>f. (f, case map_of vals f of Some v \<Rightarrow> v | None \<Rightarrow> PNone)) (attrs obj),
      i_state = Transient\<rparr>"

definition sa_construct :: "entity \<Rightarrow> pydict \<Rightarrow> (pyval, sa_world) comp" where
  "sa_construct obj vals w =
     (Inr (PObj (length (objs w))), w\<lparr>objs := objs w @ [new_instance obj vals]\<rparr>)"

definition sa :: "sa_world orm" where
  "sa =
     \<lparr>s_get = sa_get,
      s_add = sa_add,
      s_add_all = sa_add_all,
      s_flush = (\<lambda>h w. (Inr (), flush w)),
      s_refresh = sa_refresh,
      s_delete = sa_delete,
      s_exec_one_or_none = sa_exec_one_or_none,
      s_exec_all = sa_exec_all,
      s_commit = sa_commit,
      s_rollback = sa_rollback,
      model_dump = sa_model_dump,
      setattr = sa_setattr,
      construct = sa_construct\<rparr>"

section \<open>The package interface \<open>__init__.py\<close>\<close>

text \<open>
  A module body, as far as names go: \<open>import m\<close>, \<open>from m import a, b\<close>, and the
  statements that bind a name (\<open>def\<close>, \<open>class\<close>, an assignment). Importing a module gives
  its namespace or raises; \<open>from m import a\<close> raises \<open>ImportError\<close> at the first name
  that \<open>m\<close> does not bind. A module of the package is written with its leading dot.
\<close>

datatype stmt = Import string | From string "string list" | Binds string

datatype import_exn = ModuleNotFoundError string | ImportError string string

type_synonym modules = "string \<Rightarrow> import_exn + string list"

fun exec_body :: "modules \<Rightarrow> stmt list \<Rightarrow> string list \<Rightarrow> import_exn + string list" where
  "exec_body env [] ns = Inr ns"
| "exec_body env (Import m # rest) ns =
     (case env m of
        Inl e \<Rightarrow> Inl e
      | Inr mns \<Rightarrow> exec_body env rest (ns @ [m]))"
| "exec_body env (From m names # rest) ns =
     (case env m of
        Inl e \<Rightarrow> Inl e
      | Inr mns \<Rightarrow>
          (case find (\<lambda>n. n \<notin> set mns) names of
             Some n \<Rightarrow> Inl (ImportError n m)
           | None \<Rightarrow> exec_body env rest (ns @ names)))"
| "exec_body env (Binds n # rest) ns = exec_body env rest (ns @ [n])"

text \<open>The top-level statements of \<open>db.py\<close>, \<open>db_utils.py\<close> and \<open>__init__.py\<close>, in order.\<close>

definition db_py :: "stmt list" where
  "db_py =
     [Import ''os'',
      From ''contextlib'' [''asynccontextmanager''],
      From ''typing'' [''Any'', ''Generator''],
      From ''sqlmodel'' [''SQLModel'', ''Session'', ''create_engine''],
      From ''sqlalchemy'' [''Engine''],
      Binds ''DATABASE_URL'', Binds ''_engine'', Binds ''get_engine'', Binds ''get_session'',
      Binds ''create_db_and_tables'', Binds ''lifespan'']"

definition db_utils_py :: "stmt list" where
  "db_utils_py =
     [From ''typing'' [''Any'', ''Dict'', ''List'', ''Optional'', ''Tuple'', ''Union''],
      Import ''functools'',
      From ''sqlmodel'' [''Session'', ''select''],
      Binds ''DatabaseError'', Binds ''NotFoundError'', Binds ''ValidationError'',
      Binds ''_build_clauses'', Binds ''_order_by'', Binds ''db_error'',
      Binds ''_extract_session'', Binds ''db_commit'', Binds ''get'', Binds ''get_by_id'',
      Binds ''save'', Binds ''delete'', Binds ''update'', Binds ''get_or_create'',
      Binds ''get_or_convert'']"

definition init_py :: "stmt list" where
  "init_py =
     [From ''.db'' [''DATABASE_URL'', ''get_engine'', ''get_session'', ''create_db_and_tables'',
                    ''lifespan''],
      From ''.db_utils'' [''DatabaseError'', ''NotFoundError'', ''ValidationError''],
      From ''.db_utils'' [''db_error'', ''db_commit''],
      From ''.db_utils'' [''get'', ''get_by_id'', ''save'', ''save_all'', ''delete'', ''update'',
                          ''get_or_create'', ''get_or_convert''],
      Binds ''__all__'']"

definition api_py :: "stmt list" where
  "api_py =
     [From ''typing'' [''Any'', ''List'', ''Optional''],
      From ''fastapi'' [''APIRouter'', ''Depends'', ''status''],
      From ''sqlmodel'' [''Session''],
      From ''.db'' [''get_session''],
      From ''.db_utils'' [''db_commit'', ''delete'', ''get'', ''get_by_id'', ''save'', ''update''],
      Binds ''make_crud_router'']"

text \<open>Inside the package, \<open>.db\<close> and \<open>.db_utils\<close> are the two files; every other module
  is what the environment \<open>env\<close> has installed.\<close>

definition package_env :: "modules \<Rightarrow> modules" where
  "package_env env m =
     (if m = ''.db'' then exec_body env db_py []
      else if m = ''.db_utils'' then exec_body env db_utils_py []
      else env m)"

text \<open>\<open>import utils\<close> runs \<open>__init__.py\<close>.\<close>

definition import_package :: "modules \<Rightarrow> import_exn + string list" where
  "import_package env = exec_body (package_env env) init_py []"

text \<open>\<open>from utils import name\<close>, and the import of the submodule \<open>utils.api\<close>: both
  import the package first.\<close>

definition import_name :: "modules \<Rightarrow> string \<Rightarrow> import_exn + string" where
  "import_name env n =
     (case import_package env of
        Inl e \<Rightarrow> Inl e
      | Inr ns \<Rightarrow> if n \<in> set ns then Inr n else Inl (ImportError n ''utils''))"

definition import_api :: "modules \<Rightarrow> import_exn + string list" where
  "import_api env =
     (case import_package env of
        Inl e \<Rightarrow> Inl e
      | Inr ns \<Rightarrow> exec_body (package_env env) api_py [])"

text \<open>An environment with every module the three files ask for.\<close>

definition full_env :: modules where
  "full_env m =
     (if m = ''os'' then Inr []
      else if m = ''functools'' then Inr []
      else if m = ''contextlib'' then Inr [''asynccontextmanager'']
      else if m = ''typing'' then
        Inr [''Any'', ''Dict'', ''Generator'', ''List'', ''Optional'', ''Tuple'', ''Union'']
      else if m = ''sqlmodel'' then Inr [''SQLModel'', ''Session'', ''create_engine'', ''select'']
      else if m = ''sqlalchemy'' then Inr [''Engine'']
      else if m = ''fastapi'' then Inr [''APIRouter'', ''Depends'', ''status'']
      else Inl (ModuleNotFoundError m))"

section \<open>The contract of the two builders\<close>






text \<open>The entity of the specification's scenario, \<open>Plant{id, name, species}\<close>.\<close>

definition plant :: entity where
  "plant = \<lparr>ename = ''Plant'', attrs = [''id'', ''name'', ''species''], pkey = ''id''\<rparr>"

section \<open>The names a module body binds\<close>

fun binds :: "stmt \<Rightarrow> string list" where
  "binds (Import m) = [m]"
| "binds (From m names) = names"
| "binds (Binds n) = [n]"

section \<open>Repeated calls, and a store to run the helpers on\<close>

text \<open>The same call made \<open>n\<close> times in a row, each on the world the one before left.\<close>

fun repeat_call :: "nat \<Rightarrow> ('a, 'w) comp \<Rightarrow> 'w \<Rightarrow> (exn + 'a) list \<times> 'w" where
  "repeat_call 0 m w = ([], w)"
| "repeat_call (Suc n) m w =
     (case m w of (r, w') \<Rightarrow> (case repeat_call n m w' of (rs, w'') \<Rightarrow> (r # rs, w'')))"

text \<open>A store that holds one persistent \<open>Plant\<close>, with primary key 1.\<close>

definition fern_row :: pydict where
  "fern_row = [(''id'', PInt 1), (''name'', PStr ''Fern''), (''species'', PStr ''Fern sp.'')]"

definition fern :: inst where
  "fern = \<lparr>i_entity = plant, i_fields = fern_row, i_state = Persistent fern_row\<rparr>"

definition garden :: sa_world where
  "garden = \<lparr>objs = [fern], next_pk = 2, committed = [fern]\<rparr>"

text \<open>What \<open>session.delete\<close> makes of a persistent instance.\<close>

definition mark :: "inst \<Rightarrow> inst" where
  "mark x = (case i_state x of Persistent row \<Rightarrow> x\<lparr>i_state := Marked row\<rparr> | _ \<Rightarrow> x)"


text \<open>An instance a flush leaves as it is: not waiting for an insert or a delete, and,
  when persistent, equal to its row.\<close>

definition clean :: "inst \<Rightarrow> bool" where
  "clean x =
     (case i_state x of
        Pending \<Rightarrow> False
      | Marked row \<Rightarrow> False
      | Persistent row \<Rightarrow> row = i_fields x
      | _ \<Rightarrow> True)"


definition oak_fern :: inst where
  "oak_fern = fern\<lparr>i_fields := [(''id'', PInt 1), (''name'', PStr ''Oak''), (''species'', PStr ''Fern sp.'')]\<rparr>"

section \<open>Properties of \<open>db_error\<close>\<close>






section \<open>Properties of the filter-clause builder\<close>













section \<open>Properties of the ordering builder\<close>





section \<open>Properties of the package interface\<close>

lemma exec_body_Inr:
  "exec_body env body ns = Inr r \<Longrightarrow> r = ns @ concat (map binds body)"
  by (induction env body ns rule: exec_body.induct)
     (auto split: sum.splits option.splits)

lemma db_utils_namespace:
  "exec_body env db_utils_py [] = Inr mns \<Longrightarrow>
   find (\<lambda>n. n \<notin> set mns)
     [''get'', ''get_by_id'', ''save'', ''save_all'', ''delete'', ''update'',
      ''get_or_create'', ''get_or_convert''] = Some ''save_all''"
  by (drule exec_body_Inr) (simp add: db_utils_py_def)

lemma import_package_Inl: "\<exists>e. import_package env = Inl e"
proof (cases "exec_body env db_utils_py []")
  case (Inl e)
  then show ?thesis
    by (auto simp: import_package_def init_py_def package_env_def split: sum.splits option.splits)
next
  case (Inr mns)
  from db_utils_namespace [OF Inr] Inr show ?thesis
    by (auto simp: import_package_def init_py_def package_env_def split: sum.splits option.splits)
qed

text \<open>The two modules themselves load where their libraries are installed.\<close>

lemma modules_load:
  "exec_body full_env db_py [] =
     Inr [''os'', ''asynccontextmanager'', ''Any'', ''Generator'', ''SQLModel'', ''Session'',
          ''create_engine'', ''Engine'', ''DATABASE_URL'', ''_engine'', ''get_engine'',
          ''get_session'', ''create_db_and_tables'', ''lifespan'']"
  "isl (exec_body full_env db_utils_py []) = False"
  by (simp_all add: db_py_def db_utils_py_def full_env_def)

text \<open>
  C10. Importing the package always fails. \<open>__init__.py\<close> asks \<open>db_utils\<close> for
  \<open>save_all\<close>, which \<open>db_utils.py\<close> does not bind: whatever the environment has
  installed, \<open>import utils\<close> raises, and so do \<open>from utils import n\<close> for every name
  \<open>n\<close> and the import of the submodule \<open>utils.api\<close>. Where every library is installed
  the exception is the \<open>ImportError\<close> for \<open>save_all\<close>.
\<close>

theorem package_import_fails:
  "isl (import_package env) \<and>
   isl (import_name env n) \<and>
   isl (import_api env) \<and>
   ''save_all'' \<in> set (concat (map binds init_py)) \<and>
   ''save_all'' \<notin> set (concat (map binds db_utils_py)) \<and>
   import_package full_env = Inl (ImportError ''save_all'' ''.db_utils'')"
proof -
  obtain e where e: "import_package env = Inl e" using import_package_Inl by blast
  have "import_package full_env = Inl (ImportError ''save_all'' ''.db_utils'')"
    by (simp add: import_package_def init_py_def package_env_def db_py_def db_utils_py_def full_env_def)
  with e show ?thesis
    by (simp add: import_name_def import_api_def init_py_def db_utils_py_def)
qed

theorem package_import_fails_witness:
  "isl (import_package full_env) \<and> isl (import_name full_env ''save'') \<and> isl (import_api full_env)"
  using package_import_fails [of full_env "''save''"] by blast

section \<open>Properties of the CRUD operations\<close>

lemma bind_Inr: "m w = (Inr x, w') \<Longrightarrow> bind m f w = f x w'"
  by (simp add: bind_def)

lemma bind_Inl: "m w = (Inl e, w') \<Longrightarrow> bind m f w = (Inl e, w')"
  by (simp add: bind_def)

lemma blank_value_iff:
  "blank_value filters \<longleftrightarrow> (\<exists>(field, val) \<in> set filters. val = PNone \<or> val = PStr [])"
  by (induction filters rule: blank_value.induct) auto

text \<open>
  C5. When a value of the filters is \<open>None\<close> or the empty string, \<open>get_or_create\<close>
  returns \<open>None\<close> and leaves the world as it was, whatever the session does: no call
  reaches the session, so no row is created; and so it is for any number of calls in a
  row with the same filters.
\<close>

theorem get_or_create_blank_filter:
  assumes "(field, val) \<in> set filters" and "val = PNone \<or> val = PStr ''''"
  shows "get_or_create orm session obj vals filters w = (Inr PNone, w) \<and>
         repeat_call n (get_or_create orm session obj vals filters) w = (replicate n (Inr PNone), w)"
proof -
  from assms have b: "blank_value filters" unfolding blank_value_iff by blast
  then have one: "get_or_create orm session obj vals filters w = (Inr PNone, w)"
    by (simp add: get_or_create_def ret_def)
  have "repeat_call n (get_or_create orm session obj vals filters) w = (replicate n (Inr PNone), w)"
    by (induction n) (simp_all add: one)
  with one show ?thesis by simp
qed

theorem get_or_create_blank_filter_witness:
  "get_or_create sa 0 plant [(''name'', PStr ''Fern'')] [(''species'', PStr ''x''), (''name'', PStr '''')] garden
     = (Inr PNone, garden) \<and>
   repeat_call 3 (get_or_create sa 0 plant [(''name'', PStr ''Fern'')] [(''species'', PStr ''x''), (''name'', PNone)]) garden
     = ([Inr PNone, Inr PNone, Inr PNone], garden)"
proof -
  have a: "get_or_create sa 0 plant [(''name'', PStr ''Fern'')] [(''species'', PStr ''x''), (''name'', PStr '''')] garden
     = (Inr PNone, garden)"
    using get_or_create_blank_filter [of "''name''" "PStr ''''" "[(''species'', PStr ''x''), (''name'', PStr '''')]"
        sa 0 plant "[(''name'', PStr ''Fern'')]" garden 0]
    by simp
  have b: "repeat_call 3 (get_or_create sa 0 plant [(''name'', PStr ''Fern'')] [(''species'', PStr ''x''), (''name'', PNone)]) garden
     = ([Inr PNone, Inr PNone, Inr PNone], garden)"
    using get_or_create_blank_filter [of "''name''" "PNone" "[(''species'', PStr ''x''), (''name'', PNone)]"
        sa 0 plant "[(''name'', PStr ''Fern'')]" garden 3]
    by (simp add: numeral_3_eq_3)
  from a b show ?thesis by (simp only: simp_thms)
qed


lemma matching_from_Nil: "matching_from k P xs = [] \<longleftrightarrow> list_all (\<lambda>x. \<not> P x) xs"
  by (induction xs arbitrary: k) auto

lemma matching_from_first:
  "r < length xs \<Longrightarrow> P (xs ! r) \<Longrightarrow> (\<forall>i<r. \<not> P (xs ! i)) \<Longrightarrow>
   \<exists>rest. matching_from k P xs = (k + r) # rest"
proof (induction xs arbitrary: r k)
  case Nil
  then show ?case by simp
next
  case (Cons x xs)
  show ?case
  proof (cases r)
    case 0
    with Cons.prems show ?thesis by simp
  next
    case (Suc r')
    with Cons.prems have nx: "\<not> P x" by auto
    from Suc Cons.prems have "r' < length xs" "P (xs ! r')" "\<forall>i<r'. \<not> P (xs ! i)" by auto
    from Cons.IH [OF this, of "Suc k"] nx Suc show ?thesis by simp
  qed
qed

lemma sa_get_absent:
  "list_all (\<lambda>x. \<not> has_identity obj ident x) (objs sw) \<Longrightarrow>
   list_all (\<lambda>x. \<not> has_identity obj ident x) (objs (flush sw)) \<Longrightarrow>
   sa_get session obj ident sw = (Inr PNone, flush sw)"
  using matching_from_Nil [of 0 "has_identity obj ident" "objs sw"]
    matching_from_Nil [of 0 "has_identity obj ident" "objs (flush sw)"]
  by (simp add: sa_get_def)

lemma sa_get_present:
  assumes "r < length (objs sw)" "has_identity obj ident (objs sw ! r)"
    "\<forall>i<r. \<not> has_identity obj ident (objs sw ! i)"
  shows "sa_get session obj ident sw = (Inr (PObj r), sw)"
proof -
  from matching_from_first [OF assms, of 0]
  obtain rest where "matching_from 0 (has_identity obj ident) (objs sw) = r # rest" by auto
  then show ?thesis by (simp add: sa_get_def)
qed

lemma sa_delete_identity:
  "r < length (objs sw) \<Longrightarrow> has_identity obj ident (objs sw ! r) \<Longrightarrow>
   sa_delete session (PObj r) sw = (Inr (), set_obj r (mark (objs sw ! r)) sw)"
  by (auto simp: sa_delete_def has_identity_def mark_def set_obj_def split: ostate.splits)

text \<open>
  C6. When the session's \<open>get\<close> finds nothing for the id, \<open>delete\<close> and \<open>update\<close> both
  fail with \<open>NotFoundError\<close>, whose status is 404; when it finds an instance, \<open>delete\<close>
  hands it to \<open>session.delete\<close> and returns \<open>True\<close>. In the reference session: an id
  that no instance of the store has, before or after the autoflush, gives the
  \<open>NotFoundError\<close>; for an id in the store, \<open>delete\<close> returns \<open>True\<close> and the instance is
  marked for deletion.
\<close>

theorem delete_update_by_id:
  "(s_get orm session obj ident w = (Inr PNone, w') \<longrightarrow>
      delete orm session obj ident w = (Inl (NotFoundError (ename obj @ '' not found'')), w') \<and>
      update orm session obj ident vals w = (Inl (NotFoundError (ename obj @ '' not found'')), w') \<and>
      status_code (NotFoundError (ename obj @ '' not found'')) = Some 404) \<and>
   (s_get orm session obj ident w = (Inr (PObj r), w1) \<and>
    s_delete orm session (PObj r) w1 = (Inr (), w2) \<longrightarrow>
      delete orm session obj ident w = (Inr (PBool True), w2)) \<and>
   (list_all (\<lambda>x. \<not> has_identity obj ident x) (objs sw) \<and>
    list_all (\<lambda>x. \<not> has_identity obj ident x) (objs (flush sw)) \<longrightarrow>
      delete sa session obj ident sw = (Inl (NotFoundError (ename obj @ '' not found'')), flush sw) \<and>
      update sa session obj ident vals sw = (Inl (NotFoundError (ename obj @ '' not found'')), flush sw)) \<and>
   (r < length (objs sw) \<and> has_identity obj ident (objs sw ! r) \<and>
    (\<forall>i<r. \<not> has_identity obj ident (objs sw ! i)) \<longrightarrow>
      delete sa session obj ident sw = (Inr (PBool True), set_obj r (mark (objs sw ! r)) sw))"
proof (intro conjI impI)
  assume g: "s_get orm session obj ident w = (Inr PNone, w')"
  show "delete orm session obj ident w = (Inl (NotFoundError (ename obj @ '' not found'')), w')"
    by (simp add: delete_def db_error_def bind_Inr [where m = "s_get orm session obj ident", OF g] raise_def)
  show "update orm session obj ident vals w = (Inl (NotFoundError (ename obj @ '' not found'')), w')"
    by (simp add: update_def db_error_def bind_Inr [where m = "s_get orm session obj ident", OF g] raise_def)
  show "status_code (NotFoundError (ename obj @ '' not found'')) = Some 404" by simp
next
  assume "s_get orm session obj ident w = (Inr (PObj r), w1) \<and>
    s_delete orm session (PObj r) w1 = (Inr (), w2)"
  then have g: "s_get orm session obj ident w = (Inr (PObj r), w1)"
    and d: "s_delete orm session (PObj r) w1 = (Inr (), w2)" by simp_all
  show "delete orm session obj ident w = (Inr (PBool True), w2)"
    by (simp add: delete_def db_error_def bind_Inr [where m = "s_get orm session obj ident", OF g] bind_Inr [where m = "s_delete orm session (PObj r)", OF d] ret_def)
next
  assume "list_all (\<lambda>x. \<not> has_identity obj ident x) (objs sw) \<and>
    list_all (\<lambda>x. \<not> has_identity obj ident x) (objs (flush sw))"
  then have g: "s_get sa session obj ident sw = (Inr PNone, flush sw)"
    by (simp add: sa_def sa_get_absent)
  show "delete sa session obj ident sw = (Inl (NotFoundError (ename obj @ '' not found'')), flush sw)"
    by (simp add: delete_def db_error_def bind_Inr [where m = "s_get sa session obj ident", OF g] raise_def)
  show "update sa session obj ident vals sw = (Inl (NotFoundError (ename obj @ '' not found'')), flush sw)"
    by (simp add: update_def db_error_def bind_Inr [where m = "s_get sa session obj ident", OF g] raise_def)
next
  assume a: "r < length (objs sw) \<and> has_identity obj ident (objs sw ! r) \<and>
    (\<forall>i<r. \<not> has_identity obj ident (objs sw ! i))"
  then have g: "s_get sa session obj ident sw = (Inr (PObj r), sw)"
    by (simp add: sa_def sa_get_present)
  from a have d: "s_delete sa session (PObj r) sw = (Inr (), set_obj r (mark (objs sw ! r)) sw)"
    using sa_delete_identity [of r sw obj ident session] by (simp add: sa_def)
  show "delete sa session obj ident sw = (Inr (PBool True), set_obj r (mark (objs sw ! r)) sw)"
    by (simp add: delete_def db_error_def bind_Inr [where m = "s_get sa session obj ident", OF g] bind_Inr [where m = "s_delete sa session (PObj r)", OF d] ret_def)
qed

theorem delete_update_by_id_witness:
  "delete sa 0 plant (PInt 7) garden = (Inl (NotFoundError ''Plant not found''), garden) \<and>
   update sa 0 plant (PInt 7) [(''name'', PStr ''Oak'')] garden =
     (Inl (NotFoundError ''Plant not found''), garden) \<and>
   delete sa 0 plant (PInt 1) garden =
     (Inr (PBool True), garden\<lparr>objs := [fern\<lparr>i_state := Marked fern_row\<rparr>]\<rparr>)"
proof -
  have fl: "flush garden = garden"
    by (simp add: flush_def garden_def fern_def)
  have absent: "list_all (\<lambda>x. \<not> has_identity plant (PInt 7) x) (objs garden)"
    by (simp add: garden_def fern_def fern_row_def has_identity_def plant_def)
  have present: "0 < length (objs garden) \<and> has_identity plant (PInt 1) (objs garden ! 0) \<and>
    (\<forall>i<0. \<not> has_identity plant (PInt 1) (objs garden ! i))"
    by (simp add: garden_def fern_def fern_row_def has_identity_def plant_def)
  note t = delete_update_by_id [where sw = garden and obj = plant and session = 0]
  have a: "delete sa 0 plant (PInt 7) garden = (Inl (NotFoundError ''Plant not found''), garden) \<and>
   update sa 0 plant (PInt 7) [(''name'', PStr ''Oak'')] garden =
     (Inl (NotFoundError ''Plant not found''), garden)"
    using t [where ident = "PInt 7" and vals = "[(''name'', PStr ''Oak'')]",
        THEN conjunct2, THEN conjunct2, THEN conjunct1] absent fl
    by (simp add: plant_def)
  have b: "delete sa 0 plant (PInt 1) garden =
     (Inr (PBool True), garden\<lparr>objs := [fern\<lparr>i_state := Marked fern_row\<rparr>]\<rparr>)"
    using t [where ident = "PInt 1" and r = 0,
        THEN conjunct2, THEN conjunct2, THEN conjunct2] present
    by (simp add: set_obj_def mark_def garden_def fern_def)
  from a b show ?thesis by (simp only: simp_thms)
qed

section \<open>Properties of \<open>save\<close>\<close>

lemma save_unfold:
  assumes add: "s_add_all orm session (as_list new_obj) w = (Inr (), w1)"
    and loop: "flush_refresh_loop orm session (as_list new_obj) w1 = (Inr (), w2)"
  shows "save orm session new_obj w =
     db_error (if length (as_list new_obj) > 1 then ret (PList (as_list new_obj))
               else index0 (as_list new_obj)) w2"
  by (simp add: save_def db_error_def Let_def bind_def add loop)

lemma db_error_Inr_iff: "db_error func w = (Inr r, w') \<longleftrightarrow> func w = (Inr r, w')"
  by (auto simp: db_error_def split: prod.splits sum.splits if_splits)

lemma bind_eq_Inr:
  "bind m f w = (Inr y, w') \<longleftrightarrow> (\<exists>x w1. m w = (Inr x, w1) \<and> f x w1 = (Inr y, w'))"
  by (auto simp: bind_def split: prod.splits sum.splits)

lemma save_returns:
  assumes "save orm session new_obj w = (Inr v, w')"
  shows "(\<forall>x. new_obj = PList [x] \<longrightarrow> v = x) \<and>
         ((\<nexists>x. new_obj = PList [x]) \<and> new_obj \<noteq> PList [] \<longrightarrow> v = new_obj)"
proof -
  from assms obtain w2 where
    r: "(if length (as_list new_obj) > 1 then ret (PList (as_list new_obj))
         else index0 (as_list new_obj)) w2 = (Inr v, w')"
    unfolding save_def Let_def db_error_Inr_iff bind_eq_Inr by blast
  show ?thesis
  proof (cases "\<exists>xs. new_obj = PList xs")
    case True
    then obtain xs where xs: "new_obj = PList xs" by blast
    from r show ?thesis
      by (cases xs; cases "tl xs") (auto simp: xs ret_def raise_def index0_def split: if_splits)
  next
    case False
    with r show ?thesis
      by (cases new_obj) (auto simp: ret_def index0_def)
  qed
qed

lemma save_empty_list:
  "s_add_all orm session [] w = (Inr (), w1) \<Longrightarrow>
   save orm session (PList []) w = (Inl (DatabaseError ''list index out of range'' 500), w1)"
  using bind_Inr [where m = "s_add_all orm session []" and w = w and w' = w1 and x = "()"]
  by (simp add: save_def db_error_def Let_def bind_def ret_def raise_def index0_def str_exn_def)

lemma flush_garden: "flush garden = garden"
  by (simp add: flush_def garden_def fern_def)

lemma refresh_garden: "sa_refresh 0 (PObj 0) garden = (Inr (), garden)"
  by (simp add: sa_refresh_def set_obj_def flush_def garden_def fern_def)

lemma add_garden: "sa_add 0 (PObj 0) garden = (Inr (), garden)"
  by (simp add: sa_add_def garden_def fern_def)

text \<open>
  C1, as the code has it. When the session accepts the instances (\<open>add_all\<close>, then a
  flush and a refresh for each), \<open>save\<close> returns the instance it was given when that is
  no list, the list when it holds two instances or more, and the sole instance of a
  list of one: the result follows the number of instances, not the shape of the
  argument. Whenever \<open>save\<close> returns, it returns one of these.
\<close>

theorem save_result_shape:
  "(s_add_all orm session (as_list new_obj) w = (Inr (), w1) \<and>
    flush_refresh_loop orm session (as_list new_obj) w1 = (Inr (), w2) \<longrightarrow>
      ((\<forall>xs. new_obj \<noteq> PList xs) \<longrightarrow> save orm session new_obj w = (Inr new_obj, w2)) \<and>
      (\<forall>x. new_obj = PList [x] \<longrightarrow> save orm session new_obj w = (Inr x, w2)) \<and>
      (\<forall>xs. new_obj = PList xs \<and> 2 \<le> length xs \<longrightarrow>
          save orm session new_obj w = (Inr (PList xs), w2))) \<and>
   (save orm session new_obj w = (Inr v, w') \<longrightarrow>
      (\<forall>x. new_obj = PList [x] \<longrightarrow> v = x) \<and>
      ((\<nexists>x. new_obj = PList [x]) \<and> new_obj \<noteq> PList [] \<longrightarrow> v = new_obj))"
proof (rule conjI; rule impI)
  assume a: "s_add_all orm session (as_list new_obj) w = (Inr (), w1) \<and>
    flush_refresh_loop orm session (as_list new_obj) w1 = (Inr (), w2)"
  note u = save_unfold [OF conjunct1 [OF a] conjunct2 [OF a]]
  have one: "(\<forall>xs. new_obj \<noteq> PList xs) \<longrightarrow> save orm session new_obj w = (Inr new_obj, w2)"
    using u by (cases new_obj) (simp_all add: db_error_def index0_def ret_def)
  have two: "\<forall>x. new_obj = PList [x] \<longrightarrow> save orm session new_obj w = (Inr x, w2)"
    using u by (auto simp: db_error_def index0_def ret_def)
  have three: "\<forall>xs. new_obj = PList xs \<and> 2 \<le> length xs \<longrightarrow>
          save orm session new_obj w = (Inr (PList xs), w2)"
    using u by (auto simp: db_error_def ret_def)
  from one two three show "((\<forall>xs. new_obj \<noteq> PList xs) \<longrightarrow> save orm session new_obj w = (Inr new_obj, w2)) \<and>
      (\<forall>x. new_obj = PList [x] \<longrightarrow> save orm session new_obj w = (Inr x, w2)) \<and>
      (\<forall>xs. new_obj = PList xs \<and> 2 \<le> length xs \<longrightarrow>
          save orm session new_obj w = (Inr (PList xs), w2))"
    by (simp only: simp_thms)
next
  assume "save orm session new_obj w = (Inr v, w')"
  then show "(\<forall>x. new_obj = PList [x] \<longrightarrow> v = x) \<and>
      ((\<nexists>x. new_obj = PList [x]) \<and> new_obj \<noteq> PList [] \<longrightarrow> v = new_obj)"
    by (rule save_returns)
qed

text \<open>
  C1 as it is worded has a list of one instance returned as that list. \<open>save\<close>
  returns the instance.
\<close>

theorem save_one_element_list:
  "save sa 0 (PList [PObj 0]) garden = (Inr (PObj 0), garden) \<and> PObj 0 \<noteq> PList [PObj 0]"
proof -
  have add: "sa_add 0 (PObj 0) garden = (Inr (), garden)"
    by (simp add: sa_add_def garden_def fern_def)
  show ?thesis
    by (simp add: save_def db_error_def Let_def bind_def ret_def index0_def sa_def add
        flush_garden refresh_garden)
qed


theorem save_result_shape_witness:
  "save sa 0 (PObj 0) garden = (Inr (PObj 0), garden) \<and>
   save sa 0 (PList [PObj 0]) garden = (Inr (PObj 0), garden) \<and>
   save sa 0 (PList [PObj 0, PObj 0]) garden = (Inr (PList [PObj 0, PObj 0]), garden)"
proof -
  have a1: "s_add_all sa 0 (as_list (PObj 0)) garden = (Inr (), garden) \<and>
    flush_refresh_loop sa 0 (as_list (PObj 0)) garden = (Inr (), garden)"
    by (simp add: sa_def bind_def ret_def add_garden flush_garden refresh_garden)
  have a2: "s_add_all sa 0 (as_list (PList [PObj 0])) garden = (Inr (), garden) \<and>
    flush_refresh_loop sa 0 (as_list (PList [PObj 0])) garden = (Inr (), garden)"
    by (simp add: sa_def bind_def ret_def add_garden flush_garden refresh_garden)
  have a3: "s_add_all sa 0 (as_list (PList [PObj 0, PObj 0])) garden = (Inr (), garden) \<and>
    flush_refresh_loop sa 0 (as_list (PList [PObj 0, PObj 0])) garden = (Inr (), garden)"
    by (simp add: sa_def bind_def ret_def add_garden flush_garden refresh_garden)
  have b1: "save sa 0 (PObj 0) garden = (Inr (PObj 0), garden)"
    using save_result_shape [where orm = sa and session = 0 and new_obj = "PObj 0" and w = garden
        and ?w1.0 = garden and ?w2.0 = garden, THEN conjunct1] a1 by simp
  have b2: "save sa 0 (PList [PObj 0]) garden = (Inr (PObj 0), garden)"
    using save_result_shape [where orm = sa and session = 0 and new_obj = "PList [PObj 0]" and w = garden
        and ?w1.0 = garden and ?w2.0 = garden, THEN conjunct1] a2 by simp
  have b3: "save sa 0 (PList [PObj 0, PObj 0]) garden = (Inr (PList [PObj 0, PObj 0]), garden)"
    using save_result_shape [where orm = sa and session = 0 and new_obj = "PList [PObj 0, PObj 0]"
        and w = garden and ?w1.0 = garden and ?w2.0 = garden, THEN conjunct1] a3 by simp
  from b1 b2 b3 show ?thesis by (simp only: simp_thms)
qed

section \<open>Properties of \<open>db_commit\<close>\<close>







section \<open>Properties of \<open>get_or_convert\<close>\<close>

lemma flush_objs_clean: "list_all clean (fst (flush_objs n xs))"
  by (induction n xs rule: flush_objs.induct)
     (auto simp: clean_def Let_def split: ostate.splits prod.splits)

lemma flush_objs_id: "list_all clean xs \<Longrightarrow> flush_objs n xs = (xs, n)"
  by (induction xs) (auto simp: clean_def split: ostate.splits)

lemma flush_idem: "flush (flush w) = flush w"
  using flush_objs_clean [of "next_pk w" "objs w"]
  by (auto simp: flush_def flush_objs_id split: prod.splits)

























section \<open>What \<open>update\<close> leaves of the payload\<close>

text \<open>The merge that \<open>update\<close> assigns from: a field the payload sets takes the
  payload's value, any other field keeps the instance's, and the key \<open>id\<close> is not
  assigned at all.\<close>

lemma map_of_dict_set: "map_of (dict_set d k v) k' = (if k' = k then Some v else map_of d k')"
  by (induction d) auto

lemma map_of_dict_update:
  "distinct (map fst u) \<Longrightarrow>
   map_of (dict_update d u) k = (case map_of u k of Some v \<Rightarrow> Some v | None \<Rightarrow> map_of d k)"
proof (induction u arbitrary: d)
  case Nil
  show ?case by simp
next
  case (Cons kv u)
  obtain k' v' where kv: "kv = (k', v')" by (cases kv)
  from Cons.prems have dist: "distinct (map fst u)" and nk: "map_of u k' = None"
    by (simp_all add: kv map_of_eq_None_iff)
  note ih = Cons.IH [OF dist, of "dict_set d k' v'"]
  show ?case
  proof (cases "k = k'")
    case True
    with ih nk show ?thesis by (simp add: kv map_of_dict_set)
  next
    case False
    with ih show ?thesis by (simp add: kv map_of_dict_set split: option.splits)
  qed
qed

lemma map_of_dict_del: "map_of (dict_del d k) k' = (if k' = k then None else map_of d k')"
  by (induction d) (auto simp: dict_del_def)

lemma merged_dict_patch:
  assumes "distinct (map fst vals)"
  shows "map_of (merged_dict d vals) k =
     (if k = ''id'' then None
      else case map_of vals k of Some v \<Rightarrow> Some v | None \<Rightarrow> map_of d k)"
proof (cases "''id'' \<in> set (map fst (dict_update d vals))")
  case True
  then show ?thesis
    by (simp add: merged_dict_def map_of_dict_del map_of_dict_update [OF assms])
next
  case False
  then have "map_of (dict_update d vals) ''id'' = None"
    by (simp add: map_of_eq_None_iff)
  with False show ?thesis
    by (auto simp: merged_dict_def map_of_dict_update [OF assms] split: option.splits)
qed

text \<open>
  On the reference session the outcome of \<open>update\<close> does not depend on the payload:
  for an instance found by id, and a payload that names fields of the instance only,
  the assignments are undone by the refresh and the instance is left with its row.
\<close>

lemma keys_dict_set_list:
  "map fst (dict_set d k v) = (if k \<in> set (map fst d) then map fst d else map fst d @ [k])"
  by (induction d) (auto simp: rev_image_eqI)

lemma keys_dict_set: "set (map fst (dict_set d k v)) = insert k (set (map fst d))"
  by (auto simp: keys_dict_set_list)

lemma set_obj_twice: "set_obj r a (set_obj r b w) = set_obj r a w"
  by (simp add: set_obj_def)

lemma set_obj_nth: "r < length (objs w) \<Longrightarrow> objs (set_obj r b w) ! r = b"
  by (simp add: set_obj_def)

lemma set_obj_length: "length (objs (set_obj r b w)) = length (objs w)"
  by (simp add: set_obj_def)

lemma setattr_loop_sa:
  "r < length (objs w) \<Longrightarrow> set (map fst d) \<subseteq> set (map fst (i_fields (objs w ! r))) \<Longrightarrow>
   setattr_loop sa (PObj r) d w =
     (Inr (), set_obj r ((objs w ! r)\<lparr>i_fields := dict_update (i_fields (objs w ! r)) d\<rparr>) w)"
proof (induction d arbitrary: w)
  case Nil
  then show ?case by (simp add: ret_def set_obj_def)
next
  case (Cons kv d)
  obtain k v where kv: "kv = (k, v)" by (cases kv)
  let ?x = "objs w ! r"
  let ?w' = "set_obj r (?x\<lparr>i_fields := dict_set (i_fields ?x) k v\<rparr>) w"
  from Cons.prems have s: "setattr sa (PObj r) k v w = (Inr (), ?w')"
    by (simp add: sa_def sa_setattr_def kv)
  from Cons.prems have len: "r < length (objs ?w')" by (simp add: set_obj_length)
  from Cons.prems have keys: "set (map fst d) \<subseteq> set (map fst (i_fields (objs ?w' ! r)))"
    using keys_dict_set [of "i_fields (objs w ! r)" k v]
    by (simp add: set_obj_nth kv) blast
  from Cons.IH [OF len keys] Cons.prems show ?case
    by (simp add: kv bind_def s set_obj_nth set_obj_twice)
qed

lemma update_sa_ignores_payload:
  assumes r: "r < length (objs w)" and ident: "has_identity obj ident (objs w ! r)"
    and first: "\<forall>i<r. \<not> has_identity obj ident (objs w ! i)"
    and row: "i_state (objs w ! r) = Persistent row"
    and keys: "set (map fst (merged_dict (i_fields (objs w ! r)) vals)) \<subseteq>
                 set (map fst (i_fields (objs w ! r)))"
  shows "update sa session obj ident vals w =
           (Inr (PObj r), flush (set_obj r ((objs w ! r)\<lparr>i_fields := row\<rparr>) w))"
proof -
  let ?x = "objs w ! r"
  let ?d = "merged_dict (i_fields ?x) vals"
  let ?w' = "set_obj r (?x\<lparr>i_fields := dict_update (i_fields ?x) ?d\<rparr>) w"
  have g: "s_get sa session obj ident w = (Inr (PObj r), w)"
    using sa_get_present [OF r ident first] by (simp add: sa_def)
  have d: "model_dump sa (PObj r) w = (Inr (i_fields ?x), w)"
    using r by (simp add: sa_def sa_model_dump_def)
  have l: "setattr_loop sa (PObj r) ?d w = (Inr (), ?w')"
    using setattr_loop_sa [OF r keys] .
  have a: "s_add sa session (PObj r) ?w' = (Inr (), ?w')"
    using r row by (auto simp: sa_def sa_add_def set_obj_def)
  have f: "s_refresh sa session (PObj r) ?w' =
      (Inr (), flush (set_obj r (?x\<lparr>i_fields := row\<rparr>) w))"
    using r row by (auto simp: sa_def sa_refresh_def set_obj_def)
  show ?thesis
    by (simp add: update_def db_error_def bind_def ret_def g d l a f)
qed


lemma get_fern: "sa_get 0 plant (PInt 1) garden = (Inr (PObj 0), garden)"
  by (simp add: sa_get_def has_identity_def garden_def fern_def fern_row_def plant_def)

lemma merged_fern:
  "merged_dict fern_row [(''name'', PStr ''Oak'')] = [(''name'', PStr ''Oak''), (''species'', PStr ''Fern sp.'')]"
  by (simp add: merged_dict_def dict_del_def fern_row_def)

lemma setattr_fern:
  "setattr_loop sa (PObj 0) [(''name'', PStr ''Oak''), (''species'', PStr ''Fern sp.'')] garden =
     (Inr (), garden\<lparr>objs := [oak_fern]\<rparr>)"
  by (simp add: sa_def sa_setattr_def set_obj_def bind_def ret_def garden_def fern_def fern_row_def
      oak_fern_def)

lemma add_oak_fern: "sa_add 0 (PObj 0) (garden\<lparr>objs := [oak_fern]\<rparr>) = (Inr (), garden\<lparr>objs := [oak_fern]\<rparr>)"
  by (simp add: sa_add_def oak_fern_def fern_def)

lemma refresh_oak_fern: "sa_refresh 0 (PObj 0) (garden\<lparr>objs := [oak_fern]\<rparr>) = (Inr (), garden)"
  by (simp add: sa_refresh_def set_obj_def flush_def oak_fern_def fern_def garden_def)

text \<open>
  C3 on the reference session, for the stored \<open>Plant\<close> with id 1 and a payload that
  sets \<open>name\<close> to \<open>Oak\<close>. The loop of assignments does set \<open>name\<close> on the instance;
  \<open>update\<close> then calls \<open>session.refresh\<close> with no flush before it (\<open>save\<close> flushes
  first), the refresh loads the instance again from its row, and \<open>update\<close> returns the
  instance, and leaves the store, as they were: \<open>name\<close> is still \<open>Fern\<close>.
\<close>

theorem update_discards_payload:
  "setattr_loop sa (PObj 0) (merged_dict fern_row [(''name'', PStr ''Oak'')]) garden =
     (Inr (), garden\<lparr>objs := [oak_fern]\<rparr>) \<and>
   map_of (i_fields oak_fern) ''name'' = Some (PStr ''Oak'') \<and>
   update sa 0 plant (PInt 1) [(''name'', PStr ''Oak'')] garden = (Inr (PObj 0), garden) \<and>
   map_of (i_fields (objs garden ! 0)) ''name'' = Some (PStr ''Fern'')"
proof -
  have d: "sa_model_dump (PObj 0) garden = (Inr fern_row, garden)"
    by (simp add: sa_model_dump_def garden_def fern_def)
  have u: "update sa 0 plant (PInt 1) [(''name'', PStr ''Oak'')] garden = (Inr (PObj 0), garden)"
    using setattr_fern
    by (simp add: update_def db_error_def bind_def ret_def sa_def get_fern d merged_fern
        add_oak_fern refresh_oak_fern)
  have "map_of (i_fields oak_fern) ''name'' = Some (PStr ''Oak'')"
    "map_of (i_fields (objs garden ! 0)) ''name'' = Some (PStr ''Fern'')"
    by (simp_all add: oak_fern_def garden_def fern_def fern_row_def)
  with u setattr_fern show ?thesis by (simp add: merged_fern)
qed

end
